theory Spec2Isabelle
  imports Complex_Main "HOL-Library.AList"
begin

section \<open>Strings and JavaScript helpers\<close>

text \<open>
  Strings are byte lists. The three emoji that occur in the bot's messages are written as
  their UTF-8 bytes: U+2705 (white heavy check mark), U+274C (cross mark) and U+1F514 (bell).
\<close>

definition check_mark :: string where
  "check_mark = [CHR 0xE2, CHR 0x9C, CHR 0x85]"

definition cross_mark :: string where
  "cross_mark = [CHR 0xE2, CHR 0x9D, CHR 0x8C]"

definition bell :: string where
  "bell = [CHR 0xF0, CHR 0x9F, CHR 0x94, CHR 0x94]"

definition nl :: string where
  "nl = [CHR 0x0A]"

definition quote :: string where
  "quote = [CHR 0x27]"

text \<open>\<open>String(n)\<close> for a non-negative integer, as template literals render it.\<close>

definition digit_char :: "nat \<Rightarrow> char" where
  "digit_char d = ''0123456789'' ! d"

function decimal :: "nat \<Rightarrow> string" where
  "decimal n = (if n < 10 then [digit_char n] else decimal (n div 10) @ [digit_char (n mod 10)])"
  by pat_completeness auto
termination
  by (relation "measure (\<lambda>n. n)") auto

declare decimal.simps [simp del]

text \<open>\<open>s.startsWith(p)\<close>.\<close>

definition startsWith :: "string \<Rightarrow> string \<Rightarrow> bool" where
  "startsWith s p = (take (length p) s = p)"

text \<open>
  \<open>s.split(c)\<close> for a one-character separator: the empty string splits into one empty
  field, and every occurrence of the separator starts a new field.
\<close>

fun split_str :: "char \<Rightarrow> string \<Rightarrow> string list" where
  "split_str c [] = [[]]"
| "split_str c (x # xs) =
     (if x = c then [] # split_str c xs
      else (case split_str c xs of
              [] \<Rightarrow> [[x]]
            | f # fs \<Rightarrow> (x # f) # fs))"

text \<open>
  Array destructuring \<open>[a, b, c, d] = xs\<close> reads the elements by position; a position past
  the end reads as \<open>undefined\<close>, here \<open>None\<close>.
\<close>

fun nth_opt :: "'a list \<Rightarrow> nat \<Rightarrow> 'a option" where
  "nth_opt [] n = None"
| "nth_opt (x # xs) 0 = Some x"
| "nth_opt (x # xs) (Suc n) = nth_opt xs n"

text \<open>\<open>!s\<close> for a value that is a string or \<open>undefined\<close>.\<close>

fun falsy_str :: "string option \<Rightarrow> bool" where
  "falsy_str None = True"
| "falsy_str (Some s) = (s = [])"

text \<open>
  A destructured field used as a string; a template literal renders \<open>undefined\<close> by
  its name.
\<close>

fun the_str :: "string option \<Rightarrow> string" where
  "the_str (Some s) = s"
| "the_str None = ''undefined''"

section \<open>The clan configuration (\<open>utils/config.ts\<close>)\<close>

text \<open>
  \<open>JSON.parse\<close> and the file system belong to the runtime. The model starts from what they
  hand back: the file is absent, cannot be read, does not parse (with the engine's
  message), or parses to a JSON value. An object is the list of its own properties, keys
  distinct, as the parser leaves it.
\<close>

datatype json =
    JNull
  | JBool bool
  | JNum rat
  | JStr string
  | JArr "json list"
  | JObj "(string \<times> json) list"

datatype config_file =
    Absent
  | Unreadable string
  | Unparseable string
  | Parsed json

text \<open>
  Reading a property: \<open>null\<close> throws a TypeError (\<open>Inl\<close>, with V8's message), an object
  yields its own property or \<open>undefined\<close> (\<open>None\<close>), and every other JSON value yields
  \<open>undefined\<close> for the keys this program reads.
\<close>

fun get_prop :: "json \<Rightarrow> string \<Rightarrow> string + json option" where
  "get_prop JNull k = Inl (''Cannot read properties of null (reading '' @ quote @ k @ quote @ '')'')"
| "get_prop (JObj kvs) k = Inr (map_of kvs k)"
| "get_prop (JBool b) k = Inr None"
| "get_prop (JNum n) k = Inr None"
| "get_prop (JStr s) k = Inr None"
| "get_prop (JArr xs) k = Inr None"

text \<open>JavaScript truthiness of a JSON value or \<open>undefined\<close>.\<close>

fun truthy :: "json option \<Rightarrow> bool" where
  "truthy None = False"
| "truthy (Some JNull) = False"
| "truthy (Some (JBool b)) = b"
| "truthy (Some (JNum n)) = (n \<noteq> 0)"
| "truthy (Some (JStr s)) = (s \<noteq> [])"
| "truthy (Some (JArr xs)) = True"
| "truthy (Some (JObj kvs)) = True"

definition requiredFields :: "string list" where
  "requiredFields = [''id'', ''name'', ''roleId'', ''approverRoleId'', ''approvalChannelId'']"

text \<open>
  The inner \<open>forEach\<close> over the required fields of one clan; the result is the message of
  the first error thrown, if any.
\<close>

fun check_fields :: "json \<Rightarrow> nat \<Rightarrow> string list \<Rightarrow> string option" where
  "check_fields clan index [] = None"
| "check_fields clan index (field # fields) =
     (case get_prop clan field of
        Inl msg \<Rightarrow> Some msg
      | Inr v \<Rightarrow>
          if \<not> truthy v
          then Some (''Invalid configuration: clan at index '' @ decimal index
                      @ '' is missing '' @ field)
          else check_fields clan index fields)"

text \<open>The outer \<open>forEach\<close> over \<open>config.clans\<close>, carrying the index.\<close>

fun check_clans :: "json list \<Rightarrow> nat \<Rightarrow> string option" where
  "check_clans [] index = None"
| "check_clans (clan # clans) index =
     (case check_fields clan index requiredFields of
        Some msg \<Rightarrow> Some msg
      | None \<Rightarrow> check_clans clans (Suc index))"

definition failed_to_load :: "string \<Rightarrow> string" where
  "failed_to_load msg = ''Failed to load clan configuration: '' @ msg"

text \<open>
  \<open>loadClanConfig\<close>: \<open>Inl\<close> is the message of the Error thrown, \<open>Inr\<close> the document
  returned. The missing-file error is thrown outside the \<open>try\<close>, so it is not wrapped.
\<close>

fun loadClanConfig :: "config_file \<Rightarrow> string + json" where
  "loadClanConfig Absent =
     Inl ''Clan configuration file not found. Please create config/clans.json''"
| "loadClanConfig (Unreadable msg) = Inl (failed_to_load msg)"
| "loadClanConfig (Unparseable msg) = Inl (failed_to_load msg)"
| "loadClanConfig (Parsed config) =
     (case get_prop config ''clans'' of
        Inl msg \<Rightarrow> Inl (failed_to_load msg)
      | Inr (Some (JArr clans)) \<Rightarrow>
          (case check_clans clans 0 of
             Some msg \<Rightarrow> Inl (failed_to_load msg)
           | None \<Rightarrow> Inr config)
      | Inr _ \<Rightarrow> Inl (failed_to_load ''Invalid configuration: clans must be an array''))"

text \<open>
  Modelled from the spec: the interface \<open>ClanConfig\<close> of \<open>types/clan.ts\<close>, which the loader's
  result is declared to have and which is not among the sources. The spec lists a group's
  attributes as \<open>id\<close>, \<open>name\<close>, \<open>description\<close>, \<open>roleId\<close>, \<open>approverRoleId\<close> and
  \<open>approvalChannelId\<close>, all strings. The handlers read the loaded document at this type;
  a property that is not a JSON string lies outside the declared type and reads as the
  empty string here.
\<close>

record clan =
  clan_id :: string
  clan_name :: string
  description :: string
  roleId :: string
  approverRoleId :: string
  approvalChannelId :: string

definition str_prop :: "json \<Rightarrow> string \<Rightarrow> string" where
  "str_prop j k = (case get_prop j k of Inr (Some (JStr s)) \<Rightarrow> s | _ \<Rightarrow> [])"

definition as_clan :: "json \<Rightarrow> clan" where
  "as_clan j =
     \<lparr>clan_id = str_prop j ''id'', clan_name = str_prop j ''name'',
      description = str_prop j ''description'', roleId = str_prop j ''roleId'',
      approverRoleId = str_prop j ''approverRoleId'',
      approvalChannelId = str_prop j ''approvalChannelId''\<rparr>"

definition clans_of :: "json \<Rightarrow> clan list" where
  "clans_of config =
     (case get_prop config ''clans'' of
        Inr (Some (JArr clans)) \<Rightarrow> map as_clan clans
      | _ \<Rightarrow> [])"

section \<open>The chat platform\<close>

text \<open>
  The handlers talk to the platform through discord.js calls. Each call a handler issues
  is a \<open>call\<close>; the platform either carries it out or rejects it (the awaited promise
  rejects). The run of a handler is recorded as the list of calls it issued, each marked
  done or rejected, together with its \<open>console.error\<close> lines (first argument only;
  \<open>console.log\<close> and \<open>console.warn\<close> are not recorded).
\<close>

record embed =
  embed_title :: "string option"
  embed_fields :: "(string \<times> string) list"
  embed_footer :: "string option"

datatype visibility = Ephemeral | Public

datatype call =
    Reply visibility string
  | FetchMember string
  | FetchChannel string
  | RolesAdd string string
  | RolesRemove string string
  | MessageEdit string
  | MessageEditEmbeds "embed list"
  | CreateDM string
  | DMSend string string
  | ChannelSend string string "(string \<times> string) list"

datatype event = Done call | Rejected call | ConsoleError string

text \<open>
  What a handler cannot see in advance: the configuration file, the guild's channels
  (\<open>None\<close>: no such channel; \<open>Some b\<close>: a channel whose \<open>isTextBased()\<close> is \<open>b\<close>), the
  clock in milliseconds, and which calls the platform rejects.
\<close>

record env =
  clans_json :: config_file
  channels :: "string \<rightharpoonup> bool"
  now_ms :: nat
  rejects :: "call \<Rightarrow> bool"

text \<open>
  The state a run changes: the live role assignment of the guild's members (\<open>None\<close>: not
  a member of the guild), whether the interaction has been replied to, and the record of
  the run so far.
\<close>

record world =
  members :: "string \<rightharpoonup> string set"
  replied :: bool
  trace :: "event list"

definition start :: "(string \<rightharpoonup> string set) \<Rightarrow> world" where
  "start ms = \<lparr>members = ms, replied = False, trace = []\<rparr>"

text \<open>
  Besides the rejections chosen by the environment, an interaction can be replied to
  once only (discord.js throws on the second \<open>reply\<close>), and a member who is not in the
  guild can be neither fetched nor given or stripped of a role.
\<close>

fun refused :: "env \<Rightarrow> world \<Rightarrow> call \<Rightarrow> bool" where
  "refused e w (Reply v s) = (replied w \<or> rejects e (Reply v s))"
| "refused e w (FetchMember u) = (members w u = None \<or> rejects e (FetchMember u))"
| "refused e w (RolesAdd u r) = (members w u = None \<or> rejects e (RolesAdd u r))"
| "refused e w (RolesRemove u r) = (members w u = None \<or> rejects e (RolesRemove u r))"
| "refused e w c = rejects e c"

fun effect :: "call \<Rightarrow> world \<Rightarrow> world" where
  "effect (Reply v s) w = w\<lparr>replied := True\<rparr>"
| "effect (RolesAdd u r) w =
     (case members w u of
        None \<Rightarrow> w
      | Some rs \<Rightarrow> w\<lparr>members := (members w)(u \<mapsto> insert r rs)\<rparr>)"
| "effect (RolesRemove u r) w =
     (case members w u of
        None \<Rightarrow> w
      | Some rs \<Rightarrow> w\<lparr>members := (members w)(u \<mapsto> rs - {r})\<rparr>)"
| "effect c w = w"

text \<open>An awaited call: \<open>True\<close> when it resolved, \<open>False\<close> when it threw.\<close>

definition perform :: "env \<Rightarrow> call \<Rightarrow> world \<Rightarrow> bool \<times> world" where
  "perform e c w =
     (if refused e w c then (False, w\<lparr>trace := trace w @ [Rejected c]\<rparr>)
      else (True, (effect c w)\<lparr>trace := trace w @ [Done c]\<rparr>))"

definition console_error :: "string \<Rightarrow> world \<Rightarrow> world" where
  "console_error msg w = w\<lparr>trace := trace w @ [ConsoleError msg]\<rparr>"

text \<open>
  \<open>guild.members.fetch({user, force: true})\<close>: the member's roles as the platform holds
  them now, or \<open>None\<close> when the call threw.
\<close>

definition fetch_member :: "env \<Rightarrow> string \<Rightarrow> world \<Rightarrow> string set option \<times> world" where
  "fetch_member e u w =
     (case perform e (FetchMember u) w of
        (ok, w') \<Rightarrow> (if ok then members w u else None, w'))"

text \<open>
  \<open>guild.channels.fetch(id)\<close>: outer \<open>None\<close> when the call threw, otherwise the channel
  (\<open>None\<close> for \<open>null\<close>).
\<close>

definition fetch_channel :: "env \<Rightarrow> string \<Rightarrow> world \<Rightarrow> bool option option \<times> world" where
  "fetch_channel e c w =
     (case perform e (FetchChannel c) w of
        (ok, w') \<Rightarrow> (if ok then Some (channels e c) else None, w'))"

datatype completion = Returned | Threw

text \<open>The fields of an interaction that the handlers read.\<close>

record interaction =
  user_id :: string
  in_guild :: bool
  member_roles :: "string set option"

record button_interaction = interaction +
  isButton :: bool
  customId :: string
  message_id :: string
  message_content :: string
  message_embeds :: "embed list"

record command_interaction = interaction +
  opt_clan :: string
  opt_ign :: string
  opt_user :: string

text \<open>\<open>user.toString()\<close> and the mention syntax \<open><@id>\<close>.\<close>

definition mention :: "string \<Rightarrow> string" where
  "mention u = ''<@'' @ u @ ''>''"

section \<open>The approve/deny button handler (\<open>cr:\<close> controls)\<close>

text \<open>The three texts of a resolution, each a template literal of the handler.\<close>

definition confirmContent :: "string \<Rightarrow> clan \<Rightarrow> string \<Rightarrow> string" where
  "confirmContent action clan userId =
     ''You have '' @ (if action = ''a'' then ''accepted'' else ''denied'')
       @ '' the request for '' @ mention userId @ '' to join '' @ clan_name clan @ ''.''"

definition editedContent :: "string \<Rightarrow> string \<Rightarrow> string \<Rightarrow> string" where
  "editedContent action content responder =
     content @ nl @ nl
       @ (if action = ''a'' then check_mark @ '' Accepted'' else cross_mark @ '' Denied'')
       @ '' by '' @ mention responder"

definition notificationContent :: "string \<Rightarrow> clan \<Rightarrow> string \<Rightarrow> string" where
  "notificationContent action clan responder =
     ''**Your clan request has been ''
       @ (if action = ''a'' then ''accepted '' @ check_mark else ''denied '' @ cross_mark)
       @ ''**'' @ nl @ nl
     @ ''**Clan:** '' @ clan_name clan @ nl
     @ ''**Status:** ''
       @ (if action = ''a'' then ''Accepted - Welcome to the clan!''
          else ''Denied - Please contact clan leadership for more information.'') @ nl
     @ ''**Processed by:** '' @ mention responder"

text \<open>The handler from \<open>// Handle the request\<close> on, with both members fetched.\<close>

definition cr_handle_request ::
  "env \<Rightarrow> ('a button_interaction_scheme) \<Rightarrow> clan \<Rightarrow> string \<Rightarrow> string \<Rightarrow> world \<Rightarrow> bool \<times> world" where
  "cr_handle_request e i clan userId action w =
     (case (if action = ''a'' then perform e (RolesAdd userId (roleId clan)) w else (True, w)) of
        (added, w1) \<Rightarrow>
          if \<not> added then
            perform e (Reply Ephemeral
                ''Failed to add clan role. Please check bot permissions and try again.'')
              (console_error ''Failed to add role:'' w1)
          else
            (case perform e (Reply Ephemeral (confirmContent action clan userId)) w1 of
               (replied_ok, w2) \<Rightarrow>
                 if \<not> replied_ok then (False, w2)
                 else
                   (let w3 = (case perform e (MessageEdit
                                  (editedContent action (message_content i) (user_id i))) w2 of
                                (edited, w') \<Rightarrow>
                                  if edited then w'
                                  else console_error ''Failed to update approval message:'' w');
                        w4 = (case perform e (CreateDM userId) w3 of
                                (opened, w') \<Rightarrow>
                                  if \<not> opened then console_error ''Failed to send DM to user:'' w'
                                  else
                                    (case perform e (DMSend userId
                                            (notificationContent action clan (user_id i))) w' of
                                       (sent, w'') \<Rightarrow>
                                         if sent then w''
                                         else console_error ''Failed to send DM to user:'' w''))
                    in (True, w4))))"

text \<open>
  The body of the outer \<open>try\<close>: \<open>True\<close> when it ran to a \<open>return\<close> or to its end, \<open>False\<close>
  when something threw out of it.
\<close>

definition cr_try :: "env \<Rightarrow> ('a button_interaction_scheme) \<Rightarrow> world \<Rightarrow> bool \<times> world" where
  "cr_try e i w =
     (let parts = split_str (CHR '':'') (customId i);
          userId = nth_opt parts 1;
          clanId = nth_opt parts 2;
          action = nth_opt parts 3
      in if falsy_str userId \<or> falsy_str clanId \<or> falsy_str action then
           perform e (Reply Ephemeral ''Invalid request data.'')
             (console_error (''Invalid button custom ID format: '' @ customId i) w)
         else
           (case loadClanConfig (clans_json e) of
              Inl msg \<Rightarrow> (False, w)
            | Inr config \<Rightarrow>
                (case find (\<lambda>c. Some (clan_id c) = clanId) (clans_of config) of
                   None \<Rightarrow>
                     perform e (Reply Ephemeral ''Clan configuration not found.'')
                       (console_error (''No clan found with ID: '' @ the_str clanId) w)
                 | Some clan \<Rightarrow>
                     if \<not> in_guild i then
                       perform e (Reply Ephemeral
                           ''This action can only be performed in a server.'')
                         (console_error ''Button interaction was not used in a guild'' w)
                     else
                       (case fetch_member e (user_id i) w of
                          (None, w1) \<Rightarrow>
                            perform e (Reply Ephemeral
                                ''Failed to verify your permissions. Please try again.'')
                              (console_error ''Failed to fetch approver member:'' w1)
                        | (Some roles, w1) \<Rightarrow>
                            if approverRoleId clan \<notin> roles then
                              perform e (Reply Ephemeral
                                  ''You do not have permission to handle this request.'') w1
                            else
                              (case fetch_member e (the_str userId) w1 of
                                 (None, w2) \<Rightarrow>
                                   perform e (Reply Ephemeral
                                       ''Requesting user not found. They may have left the server.'')
                                     (console_error ''Failed to fetch requesting user:'' w2)
                               | (Some rs, w2) \<Rightarrow>
                                   cr_handle_request e i clan (the_str userId)
                                     (the_str action) w2)))))"

text \<open>
  The whole \<open>execute\<close>: the two guards, the \<open>try\<close>, and the outer \<open>catch\<close>, whose own
  \<open>reply\<close> is not guarded, so its failure leaves the handler's promise rejected.
\<close>

definition cr_button_execute ::
  "env \<Rightarrow> ('a button_interaction_scheme) \<Rightarrow> (string \<rightharpoonup> string set) \<Rightarrow> completion \<times> world" where
  "cr_button_execute e i ms =
     (if \<not> isButton i then (Returned, start ms)
      else if \<not> startsWith (customId i) ''cr:'' then (Returned, start ms)
      else
        (case cr_try e i (start ms) of
           (ok, w) \<Rightarrow>
             if ok then (Returned, w)
             else
               (case perform e (Reply Ephemeral
                       ''There was an error processing this request. Please try again later.'')
                     (console_error ''Unexpected error handling clan request button:'' w) of
                  (ok', w') \<Rightarrow> (if ok' then Returned else Threw, w'))))"

section \<open>The join-request command (\<open>commands/clan-join-request.ts\<close>)\<close>

definition join_request_content :: "env \<Rightarrow> ('a command_interaction_scheme) \<Rightarrow> clan \<Rightarrow> string" where
  "join_request_content e i clan =
     ''**'' @ bell @ '' Clan Join Request**'' @ nl @ nl
     @ ''**From:** '' @ mention (user_id i) @ nl
     @ ''**IGN:** '' @ opt_ign i @ nl
     @ ''**Requested:** <t:'' @ decimal (now_ms e div 1000) @ '':f>'' @ nl
     @ ''<@&'' @ approverRoleId clan @ ''> Please review this request using the buttons below.''"

text \<open>The two decision buttons, each as its custom id and its label.\<close>

definition join_request_buttons :: "('a command_interaction_scheme) \<Rightarrow> clan \<Rightarrow> (string \<times> string) list" where
  "join_request_buttons i clan =
     [(''cr:'' @ user_id i @ '':'' @ clan_id clan @ '':a'', check_mark @ '' Approve''),
      (''cr:'' @ user_id i @ '':'' @ clan_id clan @ '':d'', cross_mark @ '' Deny'')]"

text \<open>
  The body of the inner \<open>try\<close>. \<open>interaction.guild?.channels.fetch\<close> is \<open>undefined\<close>
  without a call when there is no guild.
\<close>

definition join_request_inner :: "env \<Rightarrow> ('a command_interaction_scheme) \<Rightarrow> clan \<Rightarrow> world \<Rightarrow> bool \<times> world" where
  "join_request_inner e i clan w =
     (case (if in_guild i then fetch_channel e (approvalChannelId clan) w else (Some None, w)) of
        (None, w1) \<Rightarrow> (False, w1)
      | (Some approvalChannel, w1) \<Rightarrow>
          if approvalChannel \<noteq> Some True then
            perform e (Reply Public (cross_mark
                @ '' Could not find the approval channel. Please contact an administrator.'')) w1
          else
            (case perform e (ChannelSend (approvalChannelId clan)
                    (join_request_content e i clan) (join_request_buttons i clan)) w1 of
               (sent, w2) \<Rightarrow>
                 if \<not> sent then (False, w2)
                 else perform e (Reply Public (check_mark @ '' Your request to join ''
                        @ clan_name clan @ '' has been submitted for review.'')) w2))"

definition join_request_failed :: string where
  "join_request_failed = cross_mark @ '' Failed to process your request. Please try again later.''"

text \<open>The body of the outer \<open>try\<close>, the inner \<open>catch\<close> included.\<close>

definition join_request_try :: "env \<Rightarrow> ('a command_interaction_scheme) \<Rightarrow> world \<Rightarrow> bool \<times> world" where
  "join_request_try e i w =
     (case loadClanConfig (clans_json e) of
        Inl msg \<Rightarrow> (False, w)
      | Inr config \<Rightarrow>
          (case find (\<lambda>c. clan_id c = opt_clan i) (clans_of config) of
             None \<Rightarrow> perform e (Reply Public (cross_mark @ '' Invalid clan selected.'')) w
           | Some clan \<Rightarrow>
               (case member_roles i of
                  None \<Rightarrow> (False, w)
                | Some roles \<Rightarrow>
                    if roleId clan \<in> roles then
                      perform e (Reply Public (cross_mark @ '' You are already a member of ''
                          @ clan_name clan @ ''.'')) w
                    else
                      (case join_request_inner e i clan w of
                         (ok, w1) \<Rightarrow>
                           if ok then (True, w1)
                           else perform e (Reply Public join_request_failed)
                                  (console_error ''Error processing clan join request:'' w1)))))"

definition clan_join_request_execute ::
  "env \<Rightarrow> ('a command_interaction_scheme) \<Rightarrow> (string \<rightharpoonup> string set) \<Rightarrow> completion \<times> world" where
  "clan_join_request_execute e i ms =
     (case join_request_try e i (start ms) of
        (ok, w) \<Rightarrow>
          if ok then (Returned, w)
          else
            (case perform e (Reply Public join_request_failed)
                  (console_error ''Error processing clan join request:'' w) of
               (ok', w') \<Rightarrow> (if ok' then Returned else Threw, w')))"

section \<open>The grant and revoke commands\<close>

definition access_log_content ::
  "string \<Rightarrow> string \<Rightarrow> string \<Rightarrow> env \<Rightarrow> ('a command_interaction_scheme) \<Rightarrow> clan \<Rightarrow> string" where
  "access_log_content heading target_label actor_label e i clan =
     ''**'' @ bell @ '' '' @ heading @ ''**'' @ nl @ nl
     @ ''**'' @ target_label @ '':** '' @ mention (opt_user i) @ nl
     @ ''**Clan:** '' @ clan_name clan @ nl
     @ ''**'' @ actor_label @ '':** '' @ mention (user_id i) @ nl
     @ ''**Time:** <t:'' @ decimal (now_ms e div 1000) @ '':f>''"

text \<open>
  The inner \<open>try\<close> of \<open>clan-grant-access\<close>: add the role, confirm, then log to the clan's
  approval channel when that is a text channel.
\<close>

definition grant_inner :: "env \<Rightarrow> ('a command_interaction_scheme) \<Rightarrow> clan \<Rightarrow> world \<Rightarrow> bool \<times> world" where
  "grant_inner e i clan w =
     (case perform e (RolesAdd (opt_user i) (roleId clan)) w of
        (added, w1) \<Rightarrow>
          if \<not> added then (False, w1)
          else
            (case perform e (Reply Ephemeral (check_mark @ '' Successfully granted ''
                    @ clan_name clan @ '' access to '' @ mention (opt_user i) @ ''.'')) w1 of
               (replied_ok, w2) \<Rightarrow>
                 if \<not> replied_ok then (False, w2)
                 else
                   (case (if in_guild i then fetch_channel e (approvalChannelId clan) w2
                          else (Some None, w2)) of
                      (None, w3) \<Rightarrow> (False, w3)
                    | (Some approvalChannel, w3) \<Rightarrow>
                        if approvalChannel = Some True then
                          perform e (ChannelSend (approvalChannelId clan)
                              (access_log_content ''Clan Access Granted'' ''To'' ''Granted by'' e i clan)
                              []) w3
                        else (True, w3))))"

definition grant_try :: "env \<Rightarrow> ('a command_interaction_scheme) \<Rightarrow> world \<Rightarrow> bool \<times> world" where
  "grant_try e i w =
     (case member_roles i of
        None \<Rightarrow>
          perform e (Reply Ephemeral (cross_mark @ '' Failed to fetch your member information.'')) w
      | Some granter \<Rightarrow>
          (case loadClanConfig (clans_json e) of
             Inl msg \<Rightarrow> (False, w)
           | Inr config \<Rightarrow>
               (let accessibleClans = filter (\<lambda>clan. approverRoleId clan \<in> granter) (clans_of config)
                in if length accessibleClans = 0 then
                     perform e (Reply Ephemeral (cross_mark
                         @ '' You must have approver permissions for at least one clan to grant access.'')) w
                   else
                     (case find (\<lambda>c. clan_id c = opt_clan i) accessibleClans of
                        None \<Rightarrow>
                          perform e (Reply Ephemeral (cross_mark
                              @ '' You must have approver permissions for this clan to grant access.'')) w
                      | Some selectedClan \<Rightarrow>
                          if \<not> in_guild i then
                            perform e (Reply Ephemeral (cross_mark
                                @ '' Failed to fetch target user information.'')) w
                          else
                            (case fetch_member e (opt_user i) w of
                               (None, w1) \<Rightarrow> (False, w1)
                             | (Some target, w1) \<Rightarrow>
                                 if roleId selectedClan \<in> target then
                                   perform e (Reply Ephemeral (cross_mark @ '' ''
                                       @ mention (opt_user i) @ '' already has the ''
                                       @ clan_name selectedClan @ '' role.'')) w1
                                 else
                                   (case grant_inner e i selectedClan w1 of
                                      (ok, w2) \<Rightarrow>
                                        if ok then (True, w2)
                                        else perform e (Reply Ephemeral (cross_mark
                                               @ '' Failed to grant clan role. Please check bot permissions and try again.''))
                                             (console_error ''Failed to grant clan role:'' w2)))))))"

definition clan_grant_access_execute ::
  "env \<Rightarrow> ('a command_interaction_scheme) \<Rightarrow> (string \<rightharpoonup> string set) \<Rightarrow> completion \<times> world" where
  "clan_grant_access_execute e i ms =
     (case grant_try e i (start ms) of
        (ok, w) \<Rightarrow>
          if ok then (Returned, w)
          else
            (case perform e (Reply Ephemeral (cross_mark
                    @ '' An error occurred while processing your request.''))
                  (console_error ''Error in grant-clan-access command:'' w) of
               (ok', w') \<Rightarrow> (if ok' then Returned else Threw, w')))"

text \<open>\<open>clan-revoke-access\<close> mirrors the grant command.\<close>

definition revoke_inner :: "env \<Rightarrow> ('a command_interaction_scheme) \<Rightarrow> clan \<Rightarrow> world \<Rightarrow> bool \<times> world" where
  "revoke_inner e i clan w =
     (case perform e (RolesRemove (opt_user i) (roleId clan)) w of
        (removed, w1) \<Rightarrow>
          if \<not> removed then (False, w1)
          else
            (case perform e (Reply Ephemeral (check_mark @ '' Successfully revoked ''
                    @ clan_name clan @ '' access from '' @ mention (opt_user i) @ ''.'')) w1 of
               (replied_ok, w2) \<Rightarrow>
                 if \<not> replied_ok then (False, w2)
                 else
                   (case (if in_guild i then fetch_channel e (approvalChannelId clan) w2
                          else (Some None, w2)) of
                      (None, w3) \<Rightarrow> (False, w3)
                    | (Some approvalChannel, w3) \<Rightarrow>
                        if approvalChannel = Some True then
                          perform e (ChannelSend (approvalChannelId clan)
                              (access_log_content ''Clan Access Revoked'' ''From'' ''Revoked by'' e i clan)
                              []) w3
                        else (True, w3))))"

definition revoke_try :: "env \<Rightarrow> ('a command_interaction_scheme) \<Rightarrow> world \<Rightarrow> bool \<times> world" where
  "revoke_try e i w =
     (case member_roles i of
        None \<Rightarrow>
          perform e (Reply Ephemeral (cross_mark @ '' Failed to fetch your member information.'')) w
      | Some revoker \<Rightarrow>
          (case loadClanConfig (clans_json e) of
             Inl msg \<Rightarrow> (False, w)
           | Inr config \<Rightarrow>
               (let accessibleClans = filter (\<lambda>clan. approverRoleId clan \<in> revoker) (clans_of config)
                in if length accessibleClans = 0 then
                     perform e (Reply Ephemeral (cross_mark
                         @ '' You must have approver permissions for at least one clan to revoke access.'')) w
                   else
                     (case find (\<lambda>c. clan_id c = opt_clan i) accessibleClans of
                        None \<Rightarrow>
                          perform e (Reply Ephemeral (cross_mark
                              @ '' You must have approver permissions for this clan to revoke access.'')) w
                      | Some selectedClan \<Rightarrow>
                          if \<not> in_guild i then
                            perform e (Reply Ephemeral (cross_mark
                                @ '' Failed to fetch target user information.'')) w
                          else
                            (case fetch_member e (opt_user i) w of
                               (None, w1) \<Rightarrow> (False, w1)
                             | (Some target, w1) \<Rightarrow>
                                 if roleId selectedClan \<notin> target then
                                   perform e (Reply Ephemeral (cross_mark @ '' ''
                                       @ mention (opt_user i) @ '' does not have the ''
                                       @ clan_name selectedClan @ '' role.'')) w1
                                 else
                                   (case revoke_inner e i selectedClan w1 of
                                      (ok, w2) \<Rightarrow>
                                        if ok then (True, w2)
                                        else perform e (Reply Ephemeral (cross_mark
                                               @ '' Failed to revoke clan role. Please check bot permissions and try again.''))
                                             (console_error ''Failed to revoke clan role:'' w2)))))))"

definition clan_revoke_access_execute ::
  "env \<Rightarrow> ('a command_interaction_scheme) \<Rightarrow> (string \<rightharpoonup> string set) \<Rightarrow> completion \<times> world" where
  "clan_revoke_access_execute e i ms =
     (case revoke_try e i (start ms) of
        (ok, w) \<Rightarrow>
          if ok then (Returned, w)
          else
            (case perform e (Reply Ephemeral (cross_mark
                    @ '' An error occurred while processing your request.''))
                  (console_error ''Error in revoke-clan-access command:'' w) of
               (ok', w') \<Rightarrow> (if ok' then Returned else Threw, w')))"

section \<open>The signup button handler (\<open>events/di-clan-signup-button.ts\<close>)\<close>

text \<open>
  The signups are a JavaScript \<open>Map\<close> from user id to selection, kept in insertion order.
  The selection comes out of the token, so it may be \<open>undefined\<close>. The three helpers the
  handler calls, \<open>getClassWithEmoji\<close>, \<open>parseSignupsFromFields\<close> and
  \<open>createSignupEmbed\<close>, only build text; they are arguments of the model, and what is
  proved about the handler holds whatever they compute.
\<close>

type_synonym signups = "(string \<times> string option) list"

definition signups_get :: "signups \<Rightarrow> string \<Rightarrow> string option" where
  "signups_get m k = (case map_of m k of None \<Rightarrow> None | Some v \<Rightarrow> v)"

record signup_helpers =
  getClassWithEmoji :: "string option \<Rightarrow> string"
  parseSignupsFromFields :: "(string \<times> string) list \<Rightarrow> signups"
  createSignupEmbed :: "string \<Rightarrow> signups \<Rightarrow> embed"

text \<open>\<open>currentEmbed.title || 'Event Signup'\<close>.\<close>

fun title_or_default :: "string option \<Rightarrow> string" where
  "title_or_default None = ''Event Signup''"
| "title_or_default (Some t) = (if t = [] then ''Event Signup'' else t)"

text \<open>The toggle, the rebuilt embed and the edit, once the user may take part.\<close>

definition signup_toggle ::
  "signup_helpers \<Rightarrow> env \<Rightarrow> ('a button_interaction_scheme) \<Rightarrow> string option \<Rightarrow> embed \<Rightarrow> world
     \<Rightarrow> bool \<times> world" where
  "signup_toggle h e i selection currentEmbed w =
     (let userId = user_id i;
          signups = parseSignupsFromFields h (embed_fields currentEmbed);
          currentSelection = signups_get signups userId
      in case (if currentSelection = selection then
                 (AList.delete userId signups,
                  perform e (Reply Ephemeral (check_mark @ '' Removed your signup.'')) w)
               else
                 (AList.update userId selection signups,
                  if selection = Some ''cant-make-it'' then
                    perform e (Reply Ephemeral (check_mark @ '' Marked as unable to attend.'')) w
                  else
                    perform e (Reply Ephemeral (check_mark @ '' Signed up as ''
                        @ getClassWithEmoji h selection @ ''.'')) w)) of
           (signups', (replied_ok, w1)) \<Rightarrow>
             if \<not> replied_ok then (False, w1)
             else perform e (MessageEditEmbeds
                    [createSignupEmbed h (title_or_default (embed_title currentEmbed)) signups']) w1)"

definition signup_try ::
  "signup_helpers \<Rightarrow> env \<Rightarrow> ('a button_interaction_scheme) \<Rightarrow> world \<Rightarrow> bool \<times> world" where
  "signup_try h e i w =
     (let parts = split_str (CHR '':'') (customId i);
          messageId = nth_opt parts 1;
          clanId = nth_opt parts 2;
          selection = nth_opt parts 3
      in if messageId \<noteq> Some (message_id i) then
           perform e (Reply Ephemeral (cross_mark
               @ '' This signup button is from a different message.'')) w
         else
           (case loadClanConfig (clans_json e) of
              Inl msg \<Rightarrow> (False, w)
            | Inr config \<Rightarrow>
                (case find (\<lambda>c. Some (clan_id c) = clanId) (clans_of config) of
                   None \<Rightarrow> perform e (Reply Ephemeral (cross_mark @ '' Invalid clan signup.'')) w
                 | Some clan \<Rightarrow>
                     (case member_roles i of
                        None \<Rightarrow> (False, w)
                      | Some roles \<Rightarrow>
                          if roleId clan \<notin> roles then
                            perform e (Reply Ephemeral (cross_mark
                                @ '' You must be a member of '' @ clan_name clan
                                @ '' to participate in this signup.'')) w
                          else
                            (case message_embeds i of
                               [] \<Rightarrow> (False, w)
                             | currentEmbed # rest \<Rightarrow>
                                 signup_toggle h e i selection currentEmbed w)))))"

definition signup_button_execute ::
  "signup_helpers \<Rightarrow> env \<Rightarrow> ('a button_interaction_scheme) \<Rightarrow> (string \<rightharpoonup> string set)
     \<Rightarrow> completion \<times> world" where
  "signup_button_execute h e i ms =
     (if \<not> isButton i \<or> \<not> startsWith (customId i) ''signup:'' then (Returned, start ms)
      else
        (case signup_try h e i (start ms) of
           (ok, w) \<Rightarrow>
             if ok then (Returned, w)
             else
               (case perform e (Reply Ephemeral (cross_mark
                       @ '' Failed to update signup. Please try again.''))
                     (console_error ''Error handling signup button:'' w) of
                  (ok', w') \<Rightarrow> (if ok' then Returned else Threw, w'))))"

section \<open>Reading a run\<close>

text \<open>The calls a run issued, whether the platform carried them out or not.\<close>

fun issued :: "event list \<Rightarrow> call list" where
  "issued [] = []"
| "issued (Done c # evs) = c # issued evs"
| "issued (Rejected c # evs) = c # issued evs"
| "issued (ConsoleError m # evs) = issued evs"

fun is_role_mutation :: "call \<Rightarrow> bool" where
  "is_role_mutation (RolesAdd u r) = True"
| "is_role_mutation (RolesRemove u r) = True"
| "is_role_mutation c = False"

fun is_message_edit :: "call \<Rightarrow> bool" where
  "is_message_edit (MessageEdit s) = True"
| "is_message_edit (MessageEditEmbeds es) = True"
| "is_message_edit c = False"

fun is_notification :: "call \<Rightarrow> bool" where
  "is_notification (CreateDM u) = True"
| "is_notification (DMSend u s) = True"
| "is_notification c = False"

fun is_reply :: "call \<Rightarrow> bool" where
  "is_reply (Reply v s) = True"
| "is_reply c = False"

fun is_channel_send :: "call \<Rightarrow> bool" where
  "is_channel_send (ChannelSend c s bs) = True"
| "is_channel_send c = False"

text \<open>
  A run was quiet when it issued no role mutation, no message edit and no notification to
  the requester.
\<close>

definition quiet :: "event list \<Rightarrow> bool" where
  "quiet evs =
     (filter (\<lambda>c. is_role_mutation c \<or> is_message_edit c \<or> is_notification c) (issued evs) = [])"

section \<open>A sample guild\<close>

text \<open>
  The scenario of the specification: clan \<open>alpha\<close> with member role \<open>R1\<close>, approver role
  \<open>R2\<close> and approval channel \<open>C1\<close>; \<open>U1\<close> and \<open>U3\<close> hold no role, \<open>U2\<close> is an approver,
  \<open>U4\<close> is a member of the clan.
\<close>

definition sample_config :: json where
  "sample_config =
     JObj [(''clans'', JArr [JObj [(''id'', JStr ''alpha''), (''name'', JStr ''Alpha''),
       (''description'', JStr ''The first clan''), (''roleId'', JStr ''R1''),
       (''approverRoleId'', JStr ''R2''), (''approvalChannelId'', JStr ''C1'')]])]"

definition sample_env :: env where
  "sample_env =
     \<lparr>clans_json = Parsed sample_config, channels = [''C1'' \<mapsto> True],
      now_ms = 1700000000000, rejects = (\<lambda>c. False)\<rparr>"

definition sample_members :: "string \<rightharpoonup> string set" where
  "sample_members = [''U1'' \<mapsto> {}, ''U2'' \<mapsto> {''R2''}, ''U3'' \<mapsto> {}, ''U4'' \<mapsto> {''R1''}]"

definition sample_clan :: clan where
  "sample_clan =
     \<lparr>clan_id = ''alpha'', clan_name = ''Alpha'', description = ''The first clan'',
      roleId = ''R1'', approverRoleId = ''R2'', approvalChannelId = ''C1''\<rparr>"

definition click :: "string \<Rightarrow> string \<Rightarrow> string \<Rightarrow> button_interaction" where
  "click u token m =
     \<lparr>user_id = u, in_guild = True, member_roles = sample_members u, isButton = True,
      customId = token, message_id = m, message_content = ''Request'', message_embeds = []\<rparr>"

definition command :: "string \<Rightarrow> string \<Rightarrow> string \<Rightarrow> string \<Rightarrow> command_interaction" where
  "command u clan ign target =
     \<lparr>user_id = u, in_guild = True, member_roles = sample_members u,
      opt_clan = clan, opt_ign = ign, opt_user = target\<rparr>"

text \<open>Stand-ins for the three text helpers of the signup handler.\<close>

definition sample_helpers :: signup_helpers where
  "sample_helpers =
     \<lparr>getClassWithEmoji = the_str,
      parseSignupsFromFields = (\<lambda>fs. []),
      createSignupEmbed = (\<lambda>t m. \<lparr>embed_title = Some t, embed_fields = [], embed_footer = None\<rparr>)\<rparr>"

section \<open>The vocabulary of the specification\<close>

text \<open>
  A token is well formed for the approve/deny handler when its split has a tag and then
  three non-empty fields: requesting user, group and decision. Further fields may follow.
\<close>

fun well_formed :: "string list \<Rightarrow> bool" where
  "well_formed (tag # userId # clanId # action # rest) = (userId \<noteq> [] \<and> clanId \<noteq> [] \<and> action \<noteq> [])"
| "well_formed parts = False"

text \<open>
  A run reports a reply when the handler issued it and, unless the platform rejects that
  very reply, it was delivered.
\<close>

definition reports :: "env \<Rightarrow> world \<Rightarrow> call \<Rightarrow> bool" where
  "reports e w r \<longleftrightarrow>
     r \<in> set (issued (trace w)) \<and> (\<not> rejects e r \<longrightarrow> Done r \<in> set (trace w))"

text \<open>The configured group with a given id, if the configuration loads and has one.\<close>

definition lookup_clan :: "env \<Rightarrow> string \<Rightarrow> clan option" where
  "lookup_clan e g =
     (case loadClanConfig (clans_json e) of
        Inl msg \<Rightarrow> None
      | Inr config \<Rightarrow> find (\<lambda>c. clan_id c = g) (clans_of config))"

text \<open>
  A group has a field when reading it does not throw and yields a truthy value; a
  configuration file is acceptable when it parses to a document whose \<open>clans\<close> is an
  array of groups that have every field the loader requires.
\<close>

definition has_field :: "json \<Rightarrow> string \<Rightarrow> bool" where
  "has_field clan field = (case get_prop clan field of Inl msg \<Rightarrow> False | Inr v \<Rightarrow> truthy v)"

definition acceptable :: "config_file \<Rightarrow> bool" where
  "acceptable f =
     (case f of
        Parsed config \<Rightarrow>
          (case get_prop config ''clans'' of
             Inr (Some (JArr clans)) \<Rightarrow>
               list_all (\<lambda>clan. list_all (has_field clan) requiredFields) clans
           | _ \<Rightarrow> False)
      | _ \<Rightarrow> False)"

lemmas run_defs =
  cr_button_execute_def cr_try_def cr_handle_request_def notificationContent_def
  confirmContent_def editedContent_def
  clan_join_request_execute_def join_request_try_def join_request_inner_def
  clan_grant_access_execute_def grant_try_def grant_inner_def
  clan_revoke_access_execute_def revoke_try_def revoke_inner_def
  signup_button_execute_def signup_try_def signup_toggle_def
  startsWith_def start_def perform_def console_error_def fetch_member_def fetch_channel_def
  clans_of_def as_clan_def str_prop_def requiredFields_def mention_def quiet_def
  Let_def numeral_2_eq_2 numeral_3_eq_3

lemmas sample_defs =
  sample_config_def sample_env_def sample_members_def sample_clan_def click_def command_def
  sample_helpers_def

section \<open>Configuration loading\<close>

lemma check_fields_None:
  "check_fields clan index fs = None \<longleftrightarrow> list_all (has_field clan) fs"
  by (induction fs) (auto simp: has_field_def split: sum.splits)

lemma check_clans_None:
  "check_clans clans index = None \<longleftrightarrow>
     list_all (\<lambda>clan. list_all (has_field clan) requiredFields) clans"
proof (induction clans arbitrary: index)
  case Nil
  show ?case by simp
next
  case (Cons clan clans)
  show ?case
  proof (cases "check_fields clan index requiredFields")
    case None
    then show ?thesis
      using Cons.IH [of "Suc index"] check_fields_None [of clan index requiredFields]
      by simp
  next
    case (Some msg)
    then show ?thesis
      using check_fields_None [of clan index requiredFields]
      by simp
  qed
qed

lemma check_clans_Some:
  "check_clans clans index = Some msg \<Longrightarrow>
     \<not> list_all (\<lambda>clan. list_all (has_field clan) requiredFields) clans"
  using check_clans_None [of clans index] by simp

text \<open>
  C7, as the loader has it: loading fails exactly when the file is absent, unreadable or
  unparseable, when the document has no array under \<open>clans\<close>, or when some group lacks a
  truthy value for one of \<open>id\<close>, \<open>name\<close>, \<open>roleId\<close>, \<open>approverRoleId\<close>,
  \<open>approvalChannelId\<close>. The field \<open>description\<close> is not among the required fields.
\<close>

theorem loadClanConfig_fails_iff:
  "isl (loadClanConfig f) \<longleftrightarrow> \<not> acceptable f"
proof (cases f)
  case (Parsed config)
  then show ?thesis
    by (auto simp: acceptable_def check_clans_None split: sum.splits option.splits json.splits
          dest: check_clans_Some)
qed (simp_all add: acceptable_def)

text \<open>
  C7, witness: a group whose \<open>roleId\<close> is the empty string is not acceptable, and loading
  it fails.
\<close>

theorem loadClanConfig_fails_iff_witness:
  "isl (loadClanConfig (Parsed (JObj [(''clans'', JArr [JObj [(''id'', JStr ''alpha''),
      (''name'', JStr ''Alpha''), (''description'', JStr ''The first clan''),
      (''roleId'', JStr []), (''approverRoleId'', JStr ''R2''),
      (''approvalChannelId'', JStr ''C1'')]])])))
   \<and> \<not> acceptable (Parsed (JObj [(''clans'', JArr [JObj [(''id'', JStr ''alpha''),
      (''name'', JStr ''Alpha''), (''description'', JStr ''The first clan''),
      (''roleId'', JStr []), (''approverRoleId'', JStr ''R2''),
      (''approvalChannelId'', JStr ''C1'')]])]))"
  using loadClanConfig_fails_iff [of "Parsed (JObj [(''clans'', JArr [JObj [(''id'', JStr ''alpha''),
      (''name'', JStr ''Alpha''), (''description'', JStr ''The first clan''),
      (''roleId'', JStr []), (''approverRoleId'', JStr ''R2''),
      (''approvalChannelId'', JStr ''C1'')]])])"]
  by (simp add: acceptable_def has_field_def requiredFields_def)

text \<open>
  C7, counterexample: a group with no \<open>description\<close> at all is loaded without error and
  returned as it stands.
\<close>

theorem loadClanConfig_missing_description_accepted:
  "loadClanConfig (Parsed (JObj [(''clans'', JArr [JObj [(''id'', JStr ''alpha''),
      (''name'', JStr ''Alpha''), (''roleId'', JStr ''R1''), (''approverRoleId'', JStr ''R2''),
      (''approvalChannelId'', JStr ''C1'')]])]))
   = Inr (JObj [(''clans'', JArr [JObj [(''id'', JStr ''alpha''),
      (''name'', JStr ''Alpha''), (''roleId'', JStr ''R1''), (''approverRoleId'', JStr ''R2''),
      (''approvalChannelId'', JStr ''C1'')]])])"
  by (simp add: requiredFields_def)

section \<open>Stages of the approve/deny handler\<close>

lemma lookup_sample: "lookup_clan sample_env ''alpha'' = Some sample_clan"
  by (simp add: lookup_clan_def sample_defs requiredFields_def clans_of_def as_clan_def
        str_prop_def)

lemma find_filter:
  "find P xs = Some x \<Longrightarrow> Q x \<Longrightarrow> find P (filter Q xs) = Some x"
  by (induction xs) (auto split: if_splits)

lemma well_formed_fields:
  "well_formed parts \<longleftrightarrow>
     \<not> (falsy_str (nth_opt parts 1) \<or> falsy_str (nth_opt parts 2) \<or> falsy_str (nth_opt parts 3))"
proof (cases parts)
  case Nil
  then show ?thesis by simp
next
  case (Cons t r1)
  note c1 = this
  show ?thesis
  proof (cases r1)
    case Nil
    with c1 show ?thesis by simp
  next
    case (Cons u r2)
    note c2 = this
    show ?thesis
    proof (cases r2)
      case Nil
      with c1 c2 show ?thesis by (simp add: numeral_2_eq_2)
    next
      case (Cons g r3)
      with c1 c2 show ?thesis
        by (cases r3) (auto simp: numeral_2_eq_2 numeral_3_eq_3)
    qed
  qed
qed

text \<open>A malformed token goes straight to the invalid-request reply.\<close>

lemma cr_try_malformed:
  assumes "\<not> well_formed (split_str (CHR '':'') (customId i))"
  shows "cr_try e i w =
     perform e (Reply Ephemeral ''Invalid request data.'')
       (console_error (''Invalid button custom ID format: '' @ customId i) w)"
  using assms unfolding cr_try_def Let_def well_formed_fields by simp

text \<open>
  A well-formed token of a configured clan, clicked in a guild, reaches the two member
  fetches.
\<close>

lemma cr_try_well_formed:
  assumes "split_str (CHR '':'') (customId i) = t # u # g # a # rest"
    and "u \<noteq> []" "g \<noteq> []" "a \<noteq> []"
    and "lookup_clan e g = Some clan" "in_guild i"
  shows "cr_try e i w =
     (case fetch_member e (user_id i) w of
        (None, w1) \<Rightarrow>
          perform e (Reply Ephemeral ''Failed to verify your permissions. Please try again.'')
            (console_error ''Failed to fetch approver member:'' w1)
      | (Some roles, w1) \<Rightarrow>
          if approverRoleId clan \<notin> roles then
            perform e (Reply Ephemeral ''You do not have permission to handle this request.'') w1
          else
            (case fetch_member e u w1 of
               (None, w2) \<Rightarrow>
                 perform e (Reply Ephemeral
                     ''Requesting user not found. They may have left the server.'')
                   (console_error ''Failed to fetch requesting user:'' w2)
             | (Some rs, w2) \<Rightarrow> cr_handle_request e i clan u a w2))"
proof -
  have n1: "nth_opt (split_str (CHR '':'') (customId i)) 1 = Some u"
    and n2: "nth_opt (split_str (CHR '':'') (customId i)) 2 = Some g"
    and n3: "nth_opt (split_str (CHR '':'') (customId i)) 3 = Some a"
    using assms(1) by (simp_all add: numeral_2_eq_2 numeral_3_eq_3)
  obtain config where c: "loadClanConfig (clans_json e) = Inr config"
    and f: "find (\<lambda>c. clan_id c = g) (clans_of config) = Some clan"
    using assms(5) by (auto simp: lookup_clan_def split: sum.splits)
  show ?thesis
    unfolding cr_try_def Let_def n1 n2 n3 c the_str.simps
    using assms(2-4,6) f by simp
qed

text \<open>With an approver clicking and the requester still in the guild, it handles the request.\<close>

lemma cr_try_authorized:
  assumes "split_str (CHR '':'') (customId i) = t # u # g # a # rest"
    and "u \<noteq> []" "g \<noteq> []" "a \<noteq> []"
    and "lookup_clan e g = Some clan" "in_guild i"
    and "\<not> rejects e (FetchMember (user_id i))" and "ms (user_id i) = Some roles"
    and "approverRoleId clan \<in> roles"
    and "\<not> rejects e (FetchMember u)" and "ms u = Some rs"
  shows "cr_try e i (start ms) =
     cr_handle_request e i clan u a
       \<lparr>members = ms, replied = False,
        trace = [Done (FetchMember (user_id i)), Done (FetchMember u)]\<rparr>"
  unfolding cr_try_well_formed [OF assms(1-6)]
  using assms(7-) by (simp add: fetch_member_def perform_def start_def)

section \<open>Malformed tokens\<close>

text \<open>
  C1, as the handler has it: for every \<open>cr:\<close> button token whose split lacks a second,
  third or fourth field, or has one of them empty, the handler reports
  \<open>Invalid request data.\<close>, changes no role, and issues no role mutation, no message edit
  and no notification. The number of fields is not checked beyond that.
\<close>

theorem cr_malformed_token_rejected:
  assumes "isButton i" and "startsWith (customId i) ''cr:''"
    and "\<not> well_formed (split_str (CHR '':'') (customId i))"
  shows "case cr_button_execute e i ms of
           (c, w) \<Rightarrow> members w = ms \<and> quiet (trace w)
             \<and> reports e w (Reply Ephemeral ''Invalid request data.'')"
  using assms(1,2) unfolding cr_button_execute_def cr_try_malformed [OF assms(3)]
  by (simp add: perform_def console_error_def start_def quiet_def reports_def)

text \<open>C1, witness: the three-field token \<open>cr:U1:alpha\<close>, clicked by the approver.\<close>

theorem cr_malformed_token_rejected_witness:
  "\<not> well_formed (split_str (CHR '':'') ''cr:U1:alpha'')
   \<and> (case cr_button_execute sample_env (click ''U2'' ''cr:U1:alpha'' ''M1'') sample_members of
         (c, w) \<Rightarrow> members w = sample_members \<and> quiet (trace w)
           \<and> Done (Reply Ephemeral ''Invalid request data.'') \<in> set (trace w))"
proof -
  have b: "isButton (click ''U2'' ''cr:U1:alpha'' ''M1'')"
    and p: "startsWith (customId (click ''U2'' ''cr:U1:alpha'' ''M1'')) ''cr:''"
    and m: "\<not> well_formed (split_str (CHR '':'') (customId (click ''U2'' ''cr:U1:alpha'' ''M1'')))"
    by (simp_all add: click_def startsWith_def)
  from cr_malformed_token_rejected [OF b p m, where e = sample_env and ms = sample_members] m
  show ?thesis by (simp add: click_def reports_def sample_env_def split: prod.splits)
qed

text \<open>
  C1, counterexample: the token \<open>cr:U1:alpha:a:extra\<close> splits into five fields, and the
  handler accepts it: the approver's click gives \<open>U1\<close> the member role.
\<close>

theorem cr_five_fields_accepted:
  "length (split_str (CHR '':'') ''cr:U1:alpha:a:extra'') = 5
   \<and> members (snd (cr_button_execute sample_env (click ''U2'' ''cr:U1:alpha:a:extra'' ''M1'')
         sample_members)) ''U1'' = Some {''R1''}
   \<and> Done (RolesAdd ''U1'' ''R1'')
       \<in> set (trace (snd (cr_button_execute sample_env
             (click ''U2'' ''cr:U1:alpha:a:extra'' ''M1'') sample_members)))"
  by (simp add: run_defs sample_defs)

section \<open>Authorization\<close>

text \<open>
  C2: on a well-formed token of a configured group, clicked in the guild, if the roles
  the platform returns for the responder at that moment do not include the group's
  approver role, then no role changes, the run issues no role mutation, no message edit
  and no notification, and it reports to the responder that they lack permission. The
  roles carried by the interaction itself (\<open>member_roles\<close>) play no part.
\<close>

theorem cr_unauthorized_rejected:
  assumes "isButton i" and "startsWith (customId i) ''cr:''"
    and "split_str (CHR '':'') (customId i) = t # u # g # a # rest"
    and "u \<noteq> []" "g \<noteq> []" "a \<noteq> []"
    and "lookup_clan e g = Some clan" "in_guild i"
    and "\<not> rejects e (FetchMember (user_id i))" and "ms (user_id i) = Some roles"
    and "approverRoleId clan \<notin> roles"
  shows "case cr_button_execute e i ms of
           (c, w) \<Rightarrow> members w = ms \<and> quiet (trace w)
             \<and> reports e w
                 (Reply Ephemeral ''You do not have permission to handle this request.'')"
  using assms(1,2,9-) unfolding cr_button_execute_def cr_try_well_formed [OF assms(3-8)]
  by (simp add: perform_def console_error_def start_def quiet_def fetch_member_def
        reports_def)

text \<open>
  C2, witness: \<open>U3\<close> holds no role on the platform; the interaction claims the approver
  role for them all the same, and the click on \<open>cr:U1:alpha:a\<close> is still refused.
\<close>

theorem cr_unauthorized_rejected_witness:
  "sample_members ''U3'' = Some {}
   \<and> (case cr_button_execute sample_env
            ((click ''U3'' ''cr:U1:alpha:a'' ''M1'')\<lparr>member_roles := Some {''R2''}\<rparr>)
            sample_members of
         (c, w) \<Rightarrow> members w = sample_members \<and> quiet (trace w)
           \<and> Done (Reply Ephemeral ''You do not have permission to handle this request.'')
               \<in> set (trace w))"
  using cr_unauthorized_rejected
    [where i = "(click ''U3'' ''cr:U1:alpha:a'' ''M1'')\<lparr>member_roles := Some {''R2''}\<rparr>"
       and t = "''cr''" and u = "''U1''" and g = "''alpha''" and a = "''a''" and rest = "[]"
       and e = sample_env and clan = sample_clan and ms = sample_members and roles = "{}"]
    lookup_sample
  by (simp add: click_def startsWith_def sample_env_def sample_members_def sample_clan_def
        reports_def split: prod.splits)

section \<open>Approve and deny\<close>

text \<open>
  C3: take a well-formed token of a configured group, clicked in the guild by a responder
  who holds the approver role, with the requester still a member of the guild. If the
  decision is \<open>a\<close> and the platform carries out the role mutation, the requester holds
  the group's member role afterwards. If the decision is anything else, the run issues no
  role mutation and every member's roles are what they were, so a requester without the
  role before is without it after.
\<close>

theorem cr_approve_grants_deny_keeps:
  assumes "isButton i" and "startsWith (customId i) ''cr:''"
    and "split_str (CHR '':'') (customId i) = t # u # g # a # rest"
    and "u \<noteq> []" "g \<noteq> []" "a \<noteq> []"
    and "lookup_clan e g = Some clan" "in_guild i"
    and "\<not> rejects e (FetchMember (user_id i))" and "ms (user_id i) = Some roles"
    and "approverRoleId clan \<in> roles"
    and "\<not> rejects e (FetchMember u)" and "ms u = Some rs"
  shows "case cr_button_execute e i ms of
           (c, w) \<Rightarrow>
             (a = ''a'' \<and> \<not> rejects e (RolesAdd u (roleId clan))
                \<longrightarrow> members w u = Some (insert (roleId clan) rs))
             \<and> (a \<noteq> ''a''
                \<longrightarrow> members w = ms \<and> filter is_role_mutation (issued (trace w)) = [])"
  using assms(1,2,13) unfolding cr_button_execute_def cr_try_authorized [OF assms(3-13)]
  by (simp add: cr_handle_request_def perform_def console_error_def Let_def)

text \<open>
  C3, witness: approver \<open>U2\<close> clicks \<open>cr:U1:alpha:a\<close>, and \<open>U1\<close>, who held nothing,
  holds \<open>R1\<close>; \<open>U2\<close> clicks \<open>cr:U1:alpha:d\<close>, and nobody's roles change.
\<close>

theorem cr_approve_grants_deny_keeps_witness:
  "sample_members ''U1'' = Some {}
   \<and> members (snd (cr_button_execute sample_env (click ''U2'' ''cr:U1:alpha:a'' ''M1'')
         sample_members)) ''U1'' = Some {''R1''}
   \<and> members (snd (cr_button_execute sample_env (click ''U2'' ''cr:U1:alpha:d'' ''M1'')
         sample_members)) = sample_members"
  using cr_approve_grants_deny_keeps
    [where i = "click ''U2'' ''cr:U1:alpha:a'' ''M1''"
       and t = "''cr''" and u = "''U1''" and g = "''alpha''" and a = "''a''" and rest = "[]"
       and e = sample_env and clan = sample_clan and ms = sample_members
       and roles = "{''R2''}" and rs = "{}"]
    cr_approve_grants_deny_keeps
    [where i = "click ''U2'' ''cr:U1:alpha:d'' ''M1''"
       and t = "''cr''" and u = "''U1''" and g = "''alpha''" and a = "''d''" and rest = "[]"
       and e = sample_env and clan = sample_clan and ms = sample_members
       and roles = "{''R2''}" and rs = "{}"]
    lookup_sample
  by (simp add: click_def startsWith_def sample_env_def sample_members_def sample_clan_def
        split: prod.splits)

text \<open>
  C5: in the approve branch, when the platform rejects the role mutation, the run reports
  to the responder that adding the role failed, no member's roles change, and the run
  issues neither an edit of the approval message nor a notification to the requester.
\<close>

theorem cr_role_mutation_failed_halts:
  assumes "isButton i" and "startsWith (customId i) ''cr:''"
    and "split_str (CHR '':'') (customId i) = t # u # g # ''a'' # rest"
    and "u \<noteq> []" "g \<noteq> []"
    and "lookup_clan e g = Some clan" "in_guild i"
    and "\<not> rejects e (FetchMember (user_id i))" and "ms (user_id i) = Some roles"
    and "approverRoleId clan \<in> roles"
    and "\<not> rejects e (FetchMember u)" and "ms u = Some rs"
    and "rejects e (RolesAdd u (roleId clan))"
  shows "case cr_button_execute e i ms of
           (c, w) \<Rightarrow>
             members w = ms
             \<and> filter is_message_edit (issued (trace w)) = []
             \<and> filter is_notification (issued (trace w)) = []
             \<and> reports e w (Reply Ephemeral
                  ''Failed to add clan role. Please check bot permissions and try again.'')"
proof -
  have a: "''a'' \<noteq> []" by simp
  show ?thesis
    using assms(1,2,12,13)
    unfolding cr_button_execute_def cr_try_authorized [OF assms(3-5) a assms(6-12)]
    by (simp add: cr_handle_request_def perform_def console_error_def Let_def reports_def)
qed

text \<open>C5, witness: the sample guild on a platform that rejects every role mutation.\<close>

theorem cr_role_mutation_failed_halts_witness:
  "rejects (sample_env\<lparr>rejects := is_role_mutation\<rparr>) (RolesAdd ''U1'' ''R1'')
   \<and> (case cr_button_execute (sample_env\<lparr>rejects := is_role_mutation\<rparr>)
            (click ''U2'' ''cr:U1:alpha:a'' ''M1'') sample_members of
         (c, w) \<Rightarrow>
           members w = sample_members
           \<and> filter is_message_edit (issued (trace w)) = []
           \<and> filter is_notification (issued (trace w)) = []
           \<and> Done (Reply Ephemeral
                ''Failed to add clan role. Please check bot permissions and try again.'')
               \<in> set (trace w))"
proof -
  have l: "lookup_clan (sample_env\<lparr>rejects := is_role_mutation\<rparr>) ''alpha'' = Some sample_clan"
    using lookup_sample by (simp add: lookup_clan_def sample_env_def)
  show ?thesis
    using cr_role_mutation_failed_halts
      [where i = "click ''U2'' ''cr:U1:alpha:a'' ''M1''"
         and t = "''cr''" and u = "''U1''" and g = "''alpha''" and rest = "[]"
         and e = "sample_env\<lparr>rejects := is_role_mutation\<rparr>" and clan = sample_clan
         and ms = sample_members and roles = "{''R2''}" and rs = "{}"] l
    by (simp add: click_def startsWith_def sample_members_def sample_clan_def
          reports_def split: prod.splits)
qed

text \<open>
  C10: on an authorized resolve of a token whose decision field is anything but \<open>a\<close>, no
  role changes and no role mutation is issued, and the reply to the responder, the line
  appended to the approval message and the notice to the requester all say
  \<open>denied\<close>. The calls of the run are exactly the two member fetches, that reply, that
  edit, and the opening and sending of the direct message.
\<close>

theorem cr_any_other_decision_denies:
  assumes "isButton i" and "startsWith (customId i) ''cr:''"
    and "split_str (CHR '':'') (customId i) = t # u # g # a # rest"
    and "u \<noteq> []" "g \<noteq> []" "a \<noteq> []"
    and "lookup_clan e g = Some clan" "in_guild i"
    and "\<not> rejects e (FetchMember (user_id i))" and "ms (user_id i) = Some roles"
    and "approverRoleId clan \<in> roles"
    and "\<not> rejects e (FetchMember u)" and "ms u = Some rs"
    and "a \<noteq> ''a''"
    and "\<not> rejects e (Reply Ephemeral
           (''You have denied the request for <@'' @ u @ ''> to join '' @ clan_name clan @ ''.''))"
    and "\<not> rejects e (CreateDM u)"
  shows "case cr_button_execute e i ms of
           (c, w) \<Rightarrow>
             c = Returned \<and> members w = ms
             \<and> issued (trace w) =
                 [FetchMember (user_id i), FetchMember u,
                  Reply Ephemeral
                    (''You have denied the request for <@'' @ u @ ''> to join ''
                      @ clan_name clan @ ''.''),
                  MessageEdit
                    (message_content i @ nl @ nl @ cross_mark @ '' Denied by <@''
                      @ user_id i @ ''>''),
                  CreateDM u,
                  DMSend u
                    (''**Your clan request has been denied '' @ cross_mark @ ''**'' @ nl @ nl
                      @ ''**Clan:** '' @ clan_name clan @ nl
                      @ ''**Status:** Denied - Please contact clan leadership for more information.''
                      @ nl @ ''**Processed by:** <@'' @ user_id i @ ''>'')]"
  using assms(1,2,13-) unfolding cr_button_execute_def cr_try_authorized [OF assms(3-13)]
  by (simp add: cr_handle_request_def perform_def console_error_def Let_def
        confirmContent_def editedContent_def notificationContent_def mention_def)

text \<open>C10, witness: the decision field \<open>maybe\<close> is handled as a denial.\<close>

theorem cr_any_other_decision_denies_witness:
  "''maybe'' \<noteq> ''a'' \<and> ''maybe'' \<noteq> ''d''
   \<and> (case cr_button_execute sample_env (click ''U2'' ''cr:U1:alpha:maybe'' ''M1'')
            sample_members of
         (c, w) \<Rightarrow>
           c = Returned \<and> members w = sample_members
           \<and> issued (trace w) =
               [FetchMember ''U2'', FetchMember ''U1'',
                Reply Ephemeral ''You have denied the request for <@U1> to join Alpha.'',
                MessageEdit (''Request'' @ nl @ nl @ cross_mark @ '' Denied by <@U2>''),
                CreateDM ''U1'',
                DMSend ''U1''
                  (''**Your clan request has been denied '' @ cross_mark @ ''**'' @ nl @ nl
                    @ ''**Clan:** Alpha'' @ nl
                    @ ''**Status:** Denied - Please contact clan leadership for more information.''
                    @ nl @ ''**Processed by:** <@U2>'')])"
  using cr_any_other_decision_denies
    [where i = "click ''U2'' ''cr:U1:alpha:maybe'' ''M1''"
       and t = "''cr''" and u = "''U1''" and g = "''alpha''" and a = "''maybe''" and rest = "[]"
       and e = sample_env and clan = sample_clan and ms = sample_members
       and roles = "{''R2''}" and rs = "{}"]
    lookup_sample
  by (simp add: click_def startsWith_def sample_env_def sample_members_def sample_clan_def)

section \<open>Failures after the role mutation\<close>

text \<open>
  C9, as the handler has it: take an authorized resolve that has got past the role
  mutation (decision \<open>a\<close> with the mutation carried out, or any other decision).
  If the confirming reply to the responder is delivered, every later failure is logged
  and swallowed: the handler returns normally and issues no other reply; it issues the
  edit of the approval message and then opens the direct message whatever became of the
  edit; a rejected edit is logged, and so is a rejected opening or sending of the direct
  message. If the confirming reply itself is rejected, the handler issues neither the
  edit nor the notification, and the outer handler logs the failure and attempts the
  general error reply.
\<close>

theorem cr_later_failures_swallowed:
  assumes "isButton i" and "startsWith (customId i) ''cr:''"
    and "split_str (CHR '':'') (customId i) = t # u # g # a # rest"
    and "u \<noteq> []" "g \<noteq> []" "a \<noteq> []"
    and "lookup_clan e g = Some clan" "in_guild i"
    and "\<not> rejects e (FetchMember (user_id i))" and "ms (user_id i) = Some roles"
    and "approverRoleId clan \<in> roles"
    and "\<not> rejects e (FetchMember u)" and "ms u = Some rs"
    and "a = ''a'' \<longrightarrow> \<not> rejects e (RolesAdd u (roleId clan))"
  shows "case cr_button_execute e i ms of
           (c, w) \<Rightarrow>
             (\<not> rejects e (Reply Ephemeral (confirmContent a clan u)) \<longrightarrow>
                c = Returned
                \<and> filter is_reply (issued (trace w)) = [Reply Ephemeral (confirmContent a clan u)]
                \<and> MessageEdit (editedContent a (message_content i) (user_id i))
                    \<in> set (issued (trace w))
                \<and> CreateDM u \<in> set (issued (trace w))
                \<and> (rejects e (MessageEdit (editedContent a (message_content i) (user_id i)))
                     \<longrightarrow> ConsoleError ''Failed to update approval message:'' \<in> set (trace w))
                \<and> (rejects e (CreateDM u)
                       \<or> rejects e (DMSend u (notificationContent a clan (user_id i)))
                     \<longrightarrow> ConsoleError ''Failed to send DM to user:'' \<in> set (trace w)))
             \<and> (rejects e (Reply Ephemeral (confirmContent a clan u)) \<longrightarrow>
                  filter is_message_edit (issued (trace w)) = []
                  \<and> filter is_notification (issued (trace w)) = []
                  \<and> ConsoleError ''Unexpected error handling clan request button:''
                      \<in> set (trace w)
                  \<and> Reply Ephemeral
                       ''There was an error processing this request. Please try again later.''
                      \<in> set (issued (trace w)))"
  using assms(1,2,13-) unfolding cr_button_execute_def cr_try_authorized [OF assms(3-13)]
  by (simp add: cr_handle_request_def perform_def console_error_def Let_def)

text \<open>
  C9, witness: on a platform that rejects message edits and direct messages, the approval
  of \<open>U1\<close> still returns normally with the one confirming reply, and both failures are
  logged.
\<close>

theorem cr_later_failures_swallowed_witness:
  "rejects (sample_env\<lparr>rejects := (\<lambda>c. is_message_edit c \<or> is_notification c)\<rparr>)
     (CreateDM ''U1'')
   \<and> (case cr_button_execute
            (sample_env\<lparr>rejects := (\<lambda>c. is_message_edit c \<or> is_notification c)\<rparr>)
            (click ''U2'' ''cr:U1:alpha:a'' ''M1'') sample_members of
         (c, w) \<Rightarrow>
           c = Returned
           \<and> filter is_reply (issued (trace w)) =
               [Reply Ephemeral ''You have accepted the request for <@U1> to join Alpha.'']
           \<and> CreateDM ''U1'' \<in> set (issued (trace w))
           \<and> ConsoleError ''Failed to update approval message:'' \<in> set (trace w)
           \<and> ConsoleError ''Failed to send DM to user:'' \<in> set (trace w))"
proof -
  let ?e = "sample_env\<lparr>rejects := (\<lambda>c. is_message_edit c \<or> is_notification c)\<rparr>"
  have l: "lookup_clan ?e ''alpha'' = Some sample_clan"
    using lookup_sample by (simp add: lookup_clan_def sample_env_def)
  show ?thesis
    using cr_later_failures_swallowed
      [where i = "click ''U2'' ''cr:U1:alpha:a'' ''M1''"
         and t = "''cr''" and u = "''U1''" and g = "''alpha''" and a = "''a''" and rest = "[]"
         and e = ?e and clan = sample_clan
         and ms = sample_members and roles = "{''R2''}" and rs = "{}"] l
    by (simp add: click_def startsWith_def sample_members_def sample_clan_def
          confirmContent_def editedContent_def mention_def split: prod.splits)
qed

text \<open>
  C9, counterexample: the platform rejects the edit of the approval message, after the
  role has been added. The handler does not abort and reports nothing: it returns
  normally, its only reply is the confirmation, and it goes on to send the requester's
  direct message.
\<close>

theorem cr_edit_failure_swallowed:
  "cr_button_execute (sample_env\<lparr>rejects := is_message_edit\<rparr>)
     (click ''U2'' ''cr:U1:alpha:a'' ''M1'') sample_members
   = (Returned,
      \<lparr>members = sample_members(''U1'' \<mapsto> {''R1''}), replied = True,
       trace =
         [Done (FetchMember ''U2''), Done (FetchMember ''U1''),
          Done (RolesAdd ''U1'' ''R1''),
          Done (Reply Ephemeral ''You have accepted the request for <@U1> to join Alpha.''),
          Rejected (MessageEdit (''Request'' @ nl @ nl @ check_mark @ '' Accepted by <@U2>'')),
          ConsoleError ''Failed to update approval message:'',
          Done (CreateDM ''U1''),
          Done (DMSend ''U1'' (notificationContent ''a'' sample_clan ''U2''))]\<rparr>)"
  by (simp add: run_defs sample_defs)

section \<open>Controls and the message they sit on\<close>

text \<open>
  C8, as the handlers have it: the signup handler rejects every signup control whose
  message-id field differs from the id of the message it is attached to: it reports that
  the button is from a different message, and issues no role mutation, no message edit
  and no notification. The approve/deny controls carry no message id, and their handler
  makes no such check.
\<close>

theorem signup_other_message_rejected:
  assumes "isButton i" and "startsWith (customId i) ''signup:''"
    and "nth_opt (split_str (CHR '':'') (customId i)) 1 \<noteq> Some (message_id i)"
  shows "case signup_button_execute h e i ms of
           (c, w) \<Rightarrow> members w = ms \<and> quiet (trace w)
             \<and> reports e w (Reply Ephemeral
                   (cross_mark @ '' This signup button is from a different message.''))"
  using assms unfolding signup_button_execute_def signup_try_def Let_def
  by (simp add: perform_def console_error_def start_def quiet_def reports_def)

text \<open>
  C8, witness: the control \<open>signup:M1:alpha:wizard\<close>, clicked by clan member \<open>U4\<close> on
  message \<open>M2\<close>.
\<close>

theorem signup_other_message_rejected_witness:
  "nth_opt (split_str (CHR '':'') ''signup:M1:alpha:wizard'') 1 \<noteq> Some ''M2''
   \<and> (case signup_button_execute sample_helpers sample_env
            (click ''U4'' ''signup:M1:alpha:wizard'' ''M2'') sample_members of
         (c, w) \<Rightarrow> members w = sample_members \<and> quiet (trace w)
           \<and> Done (Reply Ephemeral
                 (cross_mark @ '' This signup button is from a different message.''))
               \<in> set (trace w))"
  using signup_other_message_rejected
    [where i = "click ''U4'' ''signup:M1:alpha:wizard'' ''M2''" and h = sample_helpers
       and e = sample_env and ms = sample_members]
  by (simp add: click_def startsWith_def reports_def sample_env_def split: prod.splits)

text \<open>
  C8, counterexample: the same decision control \<open>cr:U1:alpha:a\<close> is clicked on message
  \<open>M1\<close> and on message \<open>M2\<close>. It can belong to one of them at most, yet neither click
  is rejected: each gives \<open>U1\<close> the member role and edits the message it was clicked
  on.
\<close>

theorem cr_ignores_message_identity:
  "members (snd (cr_button_execute sample_env (click ''U2'' ''cr:U1:alpha:a'' ''M1'')
       sample_members)) ''U1'' = Some {''R1''}
   \<and> members (snd (cr_button_execute sample_env (click ''U2'' ''cr:U1:alpha:a'' ''M2'')
       sample_members)) ''U1'' = Some {''R1''}
   \<and> filter is_message_edit (issued (trace (snd (cr_button_execute sample_env
         (click ''U2'' ''cr:U1:alpha:a'' ''M1'') sample_members))))
       = [MessageEdit (''Request'' @ nl @ nl @ check_mark @ '' Accepted by <@U2>'')]
   \<and> filter is_message_edit (issued (trace (snd (cr_button_execute sample_env
         (click ''U2'' ''cr:U1:alpha:a'' ''M2'') sample_members))))
       = [MessageEdit (''Request'' @ nl @ nl @ check_mark @ '' Accepted by <@U2>'')]"
  by (simp add: run_defs sample_defs)

section \<open>Submitting a request\<close>

text \<open>
  C4: let the command name a configured group and come from a guild member. If the
  requester already holds the group's member role, the run reports that they are already
  a member, and no message is posted to any channel. If they do not hold it, and the
  group's approval channel can be fetched and is a text channel, and the platform
  accepts the post, then exactly one message is posted, to that channel, carrying the
  approve and the deny control for this requester and group, and the run reports the
  acknowledgment to the requester. No role changes either way.
\<close>

theorem join_request_posts_once_or_already_member:
  assumes "lookup_clan e (opt_clan i) = Some clan" and "member_roles i = Some roles"
  shows "case clan_join_request_execute e i ms of
           (c, w) \<Rightarrow>
             (roleId clan \<in> roles \<longrightarrow>
                members w = ms
                \<and> filter is_channel_send (issued (trace w)) = []
                \<and> reports e w (Reply Public (cross_mark @ '' You are already a member of ''
                      @ clan_name clan @ ''.'')))
             \<and> (roleId clan \<notin> roles \<and> in_guild i
                  \<and> \<not> rejects e (FetchChannel (approvalChannelId clan))
                  \<and> channels e (approvalChannelId clan) = Some True
                  \<and> \<not> rejects e (ChannelSend (approvalChannelId clan)
                          (join_request_content e i clan) (join_request_buttons i clan)) \<longrightarrow>
                members w = ms
                \<and> filter is_channel_send (issued (trace w)) =
                    [ChannelSend (approvalChannelId clan)
                       (join_request_content e i clan)
                       [(''cr:'' @ user_id i @ '':'' @ clan_id clan @ '':a'',
                         check_mark @ '' Approve''),
                        (''cr:'' @ user_id i @ '':'' @ clan_id clan @ '':d'',
                         cross_mark @ '' Deny'')]]
                \<and> reports e w (Reply Public (check_mark @ '' Your request to join ''
                      @ clan_name clan @ '' has been submitted for review.'')))"
proof -
  obtain config where c: "loadClanConfig (clans_json e) = Inr config"
    and f: "find (\<lambda>c. clan_id c = opt_clan i) (clans_of config) = Some clan"
    using assms(1) by (auto simp: lookup_clan_def split: sum.splits)
  show ?thesis
    unfolding clan_join_request_execute_def join_request_try_def c
    using f assms(2)
    by (simp add: join_request_inner_def fetch_channel_def perform_def console_error_def
          start_def join_request_buttons_def reports_def)
qed

text \<open>
  C4, witness: \<open>U1\<close>, who lacks \<open>R1\<close>, submits with the name \<open>Hero123\<close> and one message
  with the controls \<open>cr:U1:alpha:a\<close> and \<open>cr:U1:alpha:d\<close> goes to \<open>C1\<close>; \<open>U4\<close>, who
  holds \<open>R1\<close>, submits and nothing is posted.
\<close>

theorem join_request_posts_once_or_already_member_witness:
  "(case clan_join_request_execute sample_env (command ''U1'' ''alpha'' ''Hero123'' []) sample_members of
      (c, w) \<Rightarrow>
        filter is_channel_send (issued (trace w)) =
          [ChannelSend ''C1''
             (join_request_content sample_env (command ''U1'' ''alpha'' ''Hero123'' []) sample_clan)
             [(''cr:U1:alpha:a'', check_mark @ '' Approve''),
              (''cr:U1:alpha:d'', cross_mark @ '' Deny'')]]
        \<and> Done (Reply Public
              (check_mark @ '' Your request to join Alpha has been submitted for review.''))
            \<in> set (trace w))
   \<and> (case clan_join_request_execute sample_env (command ''U4'' ''alpha'' ''Hero123'' []) sample_members of
      (c, w) \<Rightarrow>
        filter is_channel_send (issued (trace w)) = []
        \<and> Done (Reply Public (cross_mark @ '' You are already a member of Alpha.''))
            \<in> set (trace w))"
  using join_request_posts_once_or_already_member
    [where i = "command ''U1'' ''alpha'' ''Hero123'' []" and e = sample_env
       and clan = sample_clan and ms = sample_members and roles = "{}"]
    join_request_posts_once_or_already_member
    [where i = "command ''U4'' ''alpha'' ''Hero123'' []" and e = sample_env
       and clan = sample_clan and ms = sample_members and roles = "{''R1''}"]
    lookup_sample
  by (simp add: command_def sample_env_def sample_members_def sample_clan_def
        reports_def split: prod.splits)

section \<open>Granting and revoking directly\<close>

text \<open>
  C6: let the command name a configured group whose approver role the caller holds, in
  the guild, with the target a guild member whose roles the platform returns. If the
  target already holds the group's member role, \<open>clan-grant-access\<close> issues no role
  mutation, changes no role, and reports that the target already has the role. If the
  target lacks it, \<open>clan-revoke-access\<close> issues no role mutation, changes no role, and
  reports that the target does not have the role.
\<close>

theorem grant_revoke_no_op:
  assumes "lookup_clan e (opt_clan i) = Some clan" and "member_roles i = Some actor"
    and "approverRoleId clan \<in> actor" and "in_guild i"
    and "\<not> rejects e (FetchMember (opt_user i))" and "ms (opt_user i) = Some target"
  shows "(roleId clan \<in> target \<longrightarrow>
            (case clan_grant_access_execute e i ms of
               (c, w) \<Rightarrow> members w = ms
                 \<and> filter is_role_mutation (issued (trace w)) = []
                 \<and> reports e w (Reply Ephemeral (cross_mark @ '' <@'' @ opt_user i
                       @ ''> already has the '' @ clan_name clan @ '' role.''))))
         \<and> (roleId clan \<notin> target \<longrightarrow>
            (case clan_revoke_access_execute e i ms of
               (c, w) \<Rightarrow> members w = ms
                 \<and> filter is_role_mutation (issued (trace w)) = []
                 \<and> reports e w (Reply Ephemeral (cross_mark @ '' <@'' @ opt_user i
                       @ ''> does not have the '' @ clan_name clan @ '' role.''))))"
proof -
  obtain config where c: "loadClanConfig (clans_json e) = Inr config"
    and f: "find (\<lambda>c. clan_id c = opt_clan i) (clans_of config) = Some clan"
    using assms(1) by (auto simp: lookup_clan_def split: sum.splits)
  have ff: "find (\<lambda>c. clan_id c = opt_clan i)
              (filter (\<lambda>clan. approverRoleId clan \<in> actor) (clans_of config)) = Some clan"
    using f assms(3) by (rule find_filter)
  then have ne: "filter (\<lambda>clan. approverRoleId clan \<in> actor) (clans_of config) \<noteq> []"
    by auto
  show ?thesis
    unfolding clan_grant_access_execute_def grant_try_def clan_revoke_access_execute_def
      revoke_try_def c Let_def
    using ff ne assms(2,4-)
    by (simp add: fetch_member_def perform_def console_error_def start_def mention_def
          reports_def)
qed

text \<open>
  C6, witness: approver \<open>U2\<close> grants \<open>alpha\<close> to \<open>U4\<close>, who has it, and revokes it from
  \<open>U1\<close>, who has not.
\<close>

theorem grant_revoke_no_op_witness:
  "(case clan_grant_access_execute sample_env (command ''U2'' ''alpha'' [] ''U4'') sample_members of
      (c, w) \<Rightarrow> members w = sample_members
        \<and> filter is_role_mutation (issued (trace w)) = []
        \<and> Done (Reply Ephemeral (cross_mark @ '' <@U4> already has the Alpha role.''))
            \<in> set (trace w))
   \<and> (case clan_revoke_access_execute sample_env (command ''U2'' ''alpha'' [] ''U1'') sample_members of
      (c, w) \<Rightarrow> members w = sample_members
        \<and> filter is_role_mutation (issued (trace w)) = []
        \<and> Done (Reply Ephemeral (cross_mark @ '' <@U1> does not have the Alpha role.''))
            \<in> set (trace w))"
  using grant_revoke_no_op
    [where i = "command ''U2'' ''alpha'' [] ''U4''" and e = sample_env
       and clan = sample_clan and ms = sample_members and actor = "{''R2''}"
       and target = "{''R1''}"]
    grant_revoke_no_op
    [where i = "command ''U2'' ''alpha'' [] ''U1''" and e = sample_env
       and clan = sample_clan and ms = sample_members and actor = "{''R2''}"
       and target = "{}"]
    lookup_sample
  by (simp add: command_def sample_env_def sample_members_def sample_clan_def
        reports_def split: prod.splits)

end
